theory Spec2Isabelle
  imports Complex_Main "HOL-Library.Sublist"
begin

section \<open>The solar power predictor page (app.py)\<close>

text \<open>
  The page is one Python script. It loads two pickled objects, reads six form widgets and,
  when the button is pressed, scales the six values, asks the regression model for a
  prediction and renders a result box.

  Conventions of the embedding.
  \<^item> A Python float is a \<open>real\<close>, a Python int an \<open>int\<close>. Comparison and the
    arithmetic operators are those of the reals; NaN and infinities are not represented.
    Binary rounding is added where a property depends on it: the section on binary
    floating point refines the two unit conversions to rounded arithmetic.
  \<^item> A raised exception is a value \<open>Inl e\<close>; \<open>under_Exception e\<close> says whether
    the class of \<open>e\<close> derives from \<open>Exception\<close> (as opposed to deriving from
    \<open>BaseException\<close> only, like KeyboardInterrupt or SystemExit).
  \<^item> The unpickled objects are opaque values of a type \<open>'o\<close>. What the libraries do
    (\<open>joblib.load\<close>, the method \<open>transform\<close> of an object, the method
    \<open>predict\<close> of an object) is supplied as an environment.
  \<^item> Everything the script does to the outside is logged, in order, as a list of
    effects: library calls and rendered page elements.
  \<^item> The script is executed from top to bottom on every interaction with the page.
    \<open>app\<close> is one such run in which the body of the decorated \<open>load_artifacts\<close>
    is executed; \<open>app_cached\<close> is a run from any state of the resource cache, and
    \<open>session\<close> a sequence of runs.
\<close>

subsection \<open>Exceptions and scripts\<close>

datatype pyexc = PyExc (under_Exception: bool) (exc_type: string) (exc_str: string)

datatype cell = FloatCell real | IntCell int

type_synonym frame = "(string \<times> cell) list list"

type_synonym matrix = "real list list"

record 'o env =
  joblib_load :: "string \<Rightarrow> pyexc + 'o"
  obj_transform :: "'o \<Rightarrow> frame \<Rightarrow> pyexc + matrix"
  obj_predict :: "'o \<Rightarrow> matrix \<Rightarrow> pyexc + real list"

text \<open>A value inserted into an f-string with a format specification, before formatting.\<close>

datatype formatted = Fmt string real

record result_box =
  box_color :: string
  box_condition :: string
  box_value :: formatted
  box_kwh :: formatted
  box_kilojoules :: formatted
  box_kwh_per_day :: formatted

datatype 'o effect =
    Page_style
  | Call_joblib_load string
  | St_error string
  | Hero
  | Input_form
  | Call_transform 'o frame
  | Call_predict 'o matrix
  | St_result_box result_box
  | St_input_summary frame
  | Footer
  | Feature_guide

text \<open>A piece of script: the effects it performed, and the exception it raised or its value.\<close>

type_synonym ('o, 'a) script = "'o effect list \<times> (pyexc + 'a)"

definition ret :: "'a \<Rightarrow> ('o, 'a) script" where
  "ret x = ([], Inr x)"

definition emit :: "'o effect \<Rightarrow> ('o, unit) script" where
  "emit ev = ([ev], Inr ())"

definition call :: "'o effect \<Rightarrow> (pyexc + 'a) \<Rightarrow> ('o, 'a) script" where
  "call ev r = ([ev], r)"

definition bind :: "('o, 'a) script \<Rightarrow> ('a \<Rightarrow> ('o, 'b) script) \<Rightarrow> ('o, 'b) script" where
  "bind m f =
     (case m of
        (l, Inl e) \<Rightarrow> (l, Inl e)
      | (l, Inr x) \<Rightarrow> (case f x of (l', r) \<Rightarrow> (l @ l', r)))"

text \<open>\<open>try: m  except Exception as e: h e\<close>\<close>

definition try_except_Exception ::
  "('o, 'a) script \<Rightarrow> (pyexc \<Rightarrow> ('o, 'a) script) \<Rightarrow> ('o, 'a) script" where
  "try_except_Exception m h =
     (case m of
        (l, Inl e) \<Rightarrow>
          (if under_Exception e then (case h e of (l', r) \<Rightarrow> (l @ l', r)) else (l, Inl e))
      | (l, Inr x) \<Rightarrow> (l, Inr x))"

subsection \<open>Loading the artifacts\<close>

definition load_artifacts :: "'o env \<Rightarrow> ('o, 'o \<times> 'o) script" where
  "load_artifacts E =
     bind (call (Call_joblib_load ''model.pkl'') (joblib_load E ''model.pkl'')) (\<lambda>model.
     bind (call (Call_joblib_load ''scaler.pkl'') (joblib_load E ''scaler.pkl'')) (\<lambda>scaler.
     ret (model, scaler)))"

text \<open>The module-level variables bound by the try statement.\<close>

record 'o globals =
  model_loaded :: bool
  model_var :: "'o option"
  scaler_var :: "'o option"

definition warning_sign :: string where
  "warning_sign = [CHR 0xE2, CHR 0x9A, CHR 0xA0, CHR 0xEF, CHR 0xB8, CHR 0x8F]"

definition load_error_message :: "pyexc \<Rightarrow> string" where
  "load_error_message e =
     warning_sign @ '' Could not load model files: '' @ exc_str e @ [CHR 10, CHR 10] @
     ''Make sure `model.pkl` and `scaler.pkl` are in the same folder as `app.py`.''"

definition load_section :: "'o env \<Rightarrow> ('o, 'o globals) script" where
  "load_section E =
     try_except_Exception
       (bind (load_artifacts E) (\<lambda>(model, scaler).
          ret \<lparr>model_loaded = True, model_var = Some model, scaler_var = Some scaler\<rparr>))
       (\<lambda>e. bind (emit (St_error (load_error_message e))) (\<lambda>_.
          ret \<lparr>model_loaded = False, model_var = None, scaler_var = None\<rparr>))"

subsection \<open>The form and the prediction\<close>

record request =
  distance_to_solar_noon :: real
  temperature :: real
  sky_cover :: int
  visibility :: real
  humidity :: int
  wind_speed :: real

definition input_df :: "request \<Rightarrow> frame" where
  "input_df q =
     [[(''distance_to_solar_noon'', FloatCell (distance_to_solar_noon q)),
       (''temperature'', FloatCell (temperature q)),
       (''sky_cover'', IntCell (sky_cover q)),
       (''visibility'', FloatCell (visibility q)),
       (''humidity'', IntCell (humidity q)),
       (''wind_speed'', FloatCell (wind_speed q))]]"

text \<open>\<open>xs[0]\<close> on the array returned by the model.\<close>

definition index0 :: "real list \<Rightarrow> pyexc + real" where
  "index0 ys =
     (case ys of
        [] \<Rightarrow> Inl (PyExc True ''IndexError'' ''index 0 is out of bounds'')
      | y # _ \<Rightarrow> Inr y)"

definition ideal_text :: string where
  "ideal_text = [CHR 0xF0, CHR 0x9F, CHR 0x8C, CHR 0x9F] @ '' Ideal Solar Conditions''"

definition low_text :: string where
  "low_text = [CHR 0xF0, CHR 0x9F, CHR 0x8C, CHR 0x91] @ '' Low Solar Output Expected''"

definition moderate_text :: string where
  "moderate_text = [CHR 0xE2, CHR 0x9B, CHR 0x85] @ '' Moderate Solar Conditions''"

text \<open>The if/elif/else that sets \<open>condition\<close> and \<open>color_hint\<close>.\<close>

definition condition :: "request \<Rightarrow> string \<times> string" where
  "condition q =
     (if sky_cover q = 0 \<and> distance_to_solar_noon q < 0.3 then (ideal_text, ''#ffd200'')
      else if sky_cover q \<ge> 3 \<or> distance_to_solar_noon q > 1.2 then (low_text, ''#8884a8'')
      else (moderate_text, ''#f7971e''))"

text \<open>From \<open>kwh = prediction / 3_600_000\<close> to the values placed in the result box.\<close>

definition render_result :: "request \<Rightarrow> real \<Rightarrow> result_box" where
  "render_result q prediction =
     (let kwh = prediction / 3600000;
          (cond, color_hint) = condition q
      in \<lparr>box_color = color_hint,
          box_condition = cond,
          box_value = Fmt '',.0f'' prediction,
          box_kwh = Fmt ''.4f'' kwh,
          box_kilojoules = Fmt '',.1f'' (prediction / 1000),
          box_kwh_per_day = Fmt ''.4f'' (kwh * 8)\<rparr>)"

text \<open>Reading a module-level variable that the try statement may have left unbound.\<close>

definition read_var :: "string \<Rightarrow> 'o option \<Rightarrow> ('o, 'o) script" where
  "read_var name v =
     (case v of
        None \<Rightarrow> ([], Inl (PyExc True ''NameError'' (''name '' @ name @ '' is not defined'')))
      | Some x \<Rightarrow> ret x)"

text \<open>\<open>prediction = model.predict(scaler.transform(input_df))[0]\<close>\<close>

definition run_model :: "'o env \<Rightarrow> 'o globals \<Rightarrow> frame \<Rightarrow> ('o, real) script" where
  "run_model E G df =
     bind (read_var ''scaler'' (scaler_var G)) (\<lambda>scaler.
     bind (call (Call_transform scaler df) (obj_transform E scaler df)) (\<lambda>input_scaled.
     bind (read_var ''model'' (model_var G)) (\<lambda>model.
     bind (call (Call_predict model input_scaled) (obj_predict E model input_scaled)) (\<lambda>ys.
     ([], index0 ys)))))"

definition not_found_message :: string where
  "not_found_message =
     ''Model files not found. Please check that `model.pkl` and `scaler.pkl` are in the same directory.''"

definition predict_section :: "'o env \<Rightarrow> 'o globals \<Rightarrow> request \<Rightarrow> bool \<Rightarrow> ('o, unit) script" where
  "predict_section E G q predict_clicked =
     (if predict_clicked \<and> model_loaded G then
        bind (run_model E G (input_df q)) (\<lambda>prediction.
        bind (emit (St_result_box (render_result q prediction))) (\<lambda>_.
        emit (St_input_summary (input_df q))))
      else if predict_clicked \<and> \<not> model_loaded G then
        emit (St_error not_found_message)
      else ret ())"

text \<open>The whole script, top to bottom.\<close>

definition app :: "'o env \<Rightarrow> request \<Rightarrow> bool \<Rightarrow> ('o, unit) script" where
  "app E q predict_clicked =
     bind (emit Page_style) (\<lambda>_.
     bind (load_section E) (\<lambda>G.
     bind (emit Hero) (\<lambda>_.
     bind (emit Input_form) (\<lambda>_.
     bind (predict_section E G q predict_clicked) (\<lambda>_.
     bind (emit Footer) (\<lambda>_.
     emit Feature_guide))))))"

subsection \<open>Reruns and the resource cache\<close>





subsection \<open>The condition label as the specification words it\<close>

datatype label = IDEAL | LOW | MODERATE

definition spec_label :: "int \<Rightarrow> real \<Rightarrow> label" where
  "spec_label sky d =
     (if sky = 0 \<and> d < 0.3 then IDEAL
      else if sky \<ge> 3 \<or> d > 1.2 then LOW
      else MODERATE)"

fun label_text :: "label \<Rightarrow> string" where
  "label_text IDEAL = ideal_text"
| "label_text LOW = low_text"
| "label_text MODERATE = moderate_text"

section \<open>Binary floating point\<close>

text \<open>
  The values the script computes with are binary floating-point numbers: a Python float or
  a numpy float64 has \<open>p = 53\<close> significant bits, a numpy float32 has \<open>p = 24\<close>. The
  operators \<open>/\<close> and \<open>*\<close> return the exact quotient or product rounded to the nearest
  number with \<open>p\<close> significant bits, a tie going to the even significand. The exponent
  range is taken to be unbounded: overflow, underflow and NaN are not represented.
\<close>

definition round_half_even :: "real \<Rightarrow> int" where
  "round_half_even y =
     (let f = \<lfloor>y\<rfloor>
      in if y - of_int f < 1 / 2 then f
         else if 1 / 2 < y - of_int f then f + 1
         else if even f then f else f + 1)"

text \<open>The unit in the last place of a number with \<open>p\<close> significant bits near \<open>x\<close>.\<close>

definition ulp :: "nat \<Rightarrow> real \<Rightarrow> real" where
  "ulp p x = 2 powr of_int (\<lfloor>log 2 \<bar>x\<bar>\<rfloor> - int p + 1)"

definition fl :: "nat \<Rightarrow> real \<Rightarrow> real" where
  "fl p x = (if x = 0 then 0 else of_int (round_half_even (x / ulp p x)) * ulp p x)"

definition fdiv :: "nat \<Rightarrow> real \<Rightarrow> real \<Rightarrow> real" where
  "fdiv p a b = fl p (a / b)"

definition fmul :: "nat \<Rightarrow> real \<Rightarrow> real \<Rightarrow> real" where
  "fmul p a b = fl p (a * b)"

text \<open>\<open>kwh = prediction / 3_600_000\<close> and \<open>prediction/1000\<close>, as the machine computes them.\<close>

definition float_kwh :: "nat \<Rightarrow> real \<Rightarrow> real" where
  "float_kwh p prediction = fdiv p prediction 3600000"

definition float_kilojoules :: "nat \<Rightarrow> real \<Rightarrow> real" where
  "float_kilojoules p prediction = fdiv p prediction 1000"

section \<open>Concrete environments and requests\<close>

text \<open>Each file unpickles to its own name; the scaler returns a fixed row, the model \<open>-5\<close>.\<close>

definition demo_env :: "string env" where
  "demo_env =
     \<lparr>joblib_load = (\<lambda>f. Inr f),
      obj_transform = (\<lambda>ob df. Inr [[0, 0, 0, 0, 0, 0]]),
      obj_predict = (\<lambda>ob X. Inr [- 5])\<rparr>"

text \<open>The default values of the six widgets.\<close>

definition demo_request :: request where
  "demo_request =
     \<lparr>distance_to_solar_noon = 0.3, temperature = 25, sky_cover = 0,
      visibility = 10, humidity = 45, wind_speed = 3.5\<rparr>"

text \<open>The globals after a successful load, and a frame whose columns are out of order.\<close>

definition demo_globals :: "string globals" where
  "demo_globals =
     \<lparr>model_loaded = True, model_var = Some ''model.pkl'', scaler_var = Some ''scaler.pkl''\<rparr>"

definition swapped_df :: frame where
  "swapped_df =
     [[(''temperature'', FloatCell 25),
       (''distance_to_solar_noon'', FloatCell 0.3),
       (''sky_cover'', IntCell 0),
       (''visibility'', FloatCell 10),
       (''humidity'', IntCell 45),
       (''wind_speed'', FloatCell 3.5)]]"

text \<open>An environment that agrees with \<open>demo_env\<close> on the two artifacts only.\<close>

definition other_env :: "string env" where
  "other_env =
     \<lparr>joblib_load = (\<lambda>f. if f = ''model.pkl'' \<or> f = ''scaler.pkl'' then Inr f
                           else Inl (PyExc True ''FileNotFoundError'' f)),
      obj_transform = (\<lambda>ob df. if ob = ''scaler.pkl'' then Inr [[0, 0, 0, 0, 0, 0]]
                           else Inl (PyExc True ''AttributeError'' ''transform'')),
      obj_predict = (\<lambda>ob X. if ob = ''model.pkl'' then Inr [- 5]
                           else Inl (PyExc True ''AttributeError'' ''predict''))\<rparr>"

subsection \<open>Environments in which something fails\<close>


text \<open>Only the model file exists.\<close>

definition scaler_missing_env :: "string env" where
  "scaler_missing_env =
     \<lparr>joblib_load = (\<lambda>f. if f = ''model.pkl'' then Inr f
                           else Inl (PyExc True ''FileNotFoundError''
                              (''[Errno 2] No such file or directory: '' @ f))),
      obj_transform = (\<lambda>ob df. Inr [[0, 0, 0, 0, 0, 0]]),
      obj_predict = (\<lambda>ob X. Inr [- 5])\<rparr>"

text \<open>Unpickling is interrupted from the keyboard.\<close>

definition interrupted_env :: "string env" where
  "interrupted_env =
     \<lparr>joblib_load = (\<lambda>f. Inl (PyExc False ''KeyboardInterrupt'' [])),
      obj_transform = (\<lambda>ob df. Inr [[0, 0, 0, 0, 0, 0]]),
      obj_predict = (\<lambda>ob X. Inr [- 5])\<rparr>"

text \<open>Both files load; the scaler rejects the frame.\<close>

definition transform_fails_env :: "string env" where
  "transform_fails_env =
     \<lparr>joblib_load = (\<lambda>f. Inr f),
      obj_transform = (\<lambda>ob df. Inl (PyExc True ''ValueError'' ''feature names do not match'')),
      obj_predict = (\<lambda>ob X. Inr [- 5])\<rparr>"

text \<open>Both files load; the model rejects the scaled matrix.\<close>

definition predict_fails_env :: "string env" where
  "predict_fails_env =
     \<lparr>joblib_load = (\<lambda>f. Inr f),
      obj_transform = (\<lambda>ob df. Inr [[0, 0, 0, 0, 0, 0]]),
      obj_predict = (\<lambda>ob X. Inl (PyExc True ''ValueError'' ''feature shape mismatch''))\<rparr>"

section \<open>Properties\<close>

lemma label_text_inj: "label_text a = label_text b \<longleftrightarrow> a = b"
  by (cases a; cases b) (simp_all add: ideal_text_def low_text_def moderate_text_def)

lemma condition_refines: "fst (condition q) = label_text (spec_label (sky_cover q) (distance_to_solar_noon q))"
  by (simp add: condition_def spec_label_def)

text \<open>
  Claim C1. The text shown as the condition in the result box is that of the label chosen
  by the priority order of the specification (IDEAL when sky cover is 0 and the distance to
  solar noon is below 0.3; otherwise LOW when sky cover is at least 3 or the distance is
  above 1.2; otherwise MODERATE), whatever the prediction is; the three texts are pairwise
  different, so the text determines the label; and at sky cover 0 and distance exactly 0.3
  the text is that of MODERATE, not that of IDEAL.
\<close>

theorem condition_label_priority:
  "box_condition (render_result q prediction) =
     label_text (spec_label (sky_cover q) (distance_to_solar_noon q))
   \<and> box_condition (render_result q prediction) = box_condition (render_result q prediction')
   \<and> (label_text a = label_text b \<longleftrightarrow> a = b)
   \<and> box_condition (render_result (q\<lparr>sky_cover := 0, distance_to_solar_noon := 0.3\<rparr>) prediction)
       = label_text MODERATE"
proof -
  have box: "box_condition (render_result r p) = fst (condition r)" for r p
    by (simp add: render_result_def Let_def split: prod.splits)
  have c1: "box_condition (render_result q prediction) =
      label_text (spec_label (sky_cover q) (distance_to_solar_noon q))"
    by (simp only: box condition_refines)
  have c2: "box_condition (render_result q prediction) = box_condition (render_result q prediction')"
    by (simp only: box)
  have c4: "box_condition (render_result (q\<lparr>sky_cover := 0, distance_to_solar_noon := 0.3\<rparr>) prediction)
      = label_text MODERATE"
    by (simp add: box condition_def)
  from c1 c2 label_text_inj c4 show ?thesis
    by blast
qed

lemmas script_defs =
  ret_def emit_def call_def bind_def try_except_Exception_def read_var_def index0_def

lemmas page_defs =
  app_def load_section_def load_artifacts_def predict_section_def run_model_def

lemma bind_ret: "bind (ret x) f = f x"
  by (simp add: bind_def ret_def split: prod.splits)

lemma fst_bind:
  "fst (bind m f) = fst m @ (case snd m of Inl e \<Rightarrow> [] | Inr x \<Rightarrow> fst (f x))"
  by (cases m) (simp add: bind_def split: sum.splits prod.splits)

lemma fst_bind_call:
  "fst (bind (call ev r) g) = ev # (case r of Inl e \<Rightarrow> [] | Inr x \<Rightarrow> fst (g x))"
  by (simp add: fst_bind call_def)

text \<open>
  Claim C2. When both artifacts load, the scaler's transform of the assembled one-row frame
  returns \<open>X\<close> and the model's predict on \<open>X\<close> returns an array whose first element is
  \<open>y\<close>, a press of the button runs exactly these two calls, in this order, and renders the
  result box of \<open>y\<close> itself: the value handed to the formatter of the headline figure is
  \<open>y\<close>, whatever its sign, and the script ends without an exception.
\<close>

theorem raw_prediction_unclamped:
  assumes "joblib_load E ''model.pkl'' = Inr m"
    and "joblib_load E ''scaler.pkl'' = Inr s"
    and "obj_transform E s (input_df q) = Inr X"
    and "obj_predict E m X = Inr (y # ys)"
  shows "app E q True =
      ([Page_style, Call_joblib_load ''model.pkl'', Call_joblib_load ''scaler.pkl'',
        Hero, Input_form, Call_transform s (input_df q), Call_predict m X,
        St_result_box (render_result q y), St_input_summary (input_df q),
        Footer, Feature_guide], Inr ())
    \<and> box_value (render_result q y) = Fmt '',.0f'' y"
proof -
  have run: "app E q True =
      ([Page_style, Call_joblib_load ''model.pkl'', Call_joblib_load ''scaler.pkl'',
        Hero, Input_form, Call_transform s (input_df q), Call_predict m X,
        St_result_box (render_result q y), St_input_summary (input_df q),
        Footer, Feature_guide], Inr ())"
    using assms by (simp add: page_defs script_defs)
  have shown: "box_value (render_result q y) = Fmt '',.0f'' y"
    by (simp add: render_result_def Let_def split: prod.splits)
  from run shown show ?thesis by simp
qed

theorem raw_prediction_unclamped_witness:
  "joblib_load demo_env ''model.pkl'' = Inr ''model.pkl''
   \<and> joblib_load demo_env ''scaler.pkl'' = Inr ''scaler.pkl''
   \<and> obj_transform demo_env ''scaler.pkl'' (input_df demo_request) = Inr [[0, 0, 0, 0, 0, 0]]
   \<and> obj_predict demo_env ''model.pkl'' [[0, 0, 0, 0, 0, 0]] = Inr [- 5]
   \<and> app demo_env demo_request True =
      ([Page_style, Call_joblib_load ''model.pkl'', Call_joblib_load ''scaler.pkl'',
        Hero, Input_form, Call_transform ''scaler.pkl'' (input_df demo_request),
        Call_predict ''model.pkl'' [[0, 0, 0, 0, 0, 0]],
        St_result_box (render_result demo_request (- 5)),
        St_input_summary (input_df demo_request),
        Footer, Feature_guide], Inr ())
   \<and> box_value (render_result demo_request (- 5)) = Fmt '',.0f'' (- 5)"
proof -
  have h1: "joblib_load demo_env ''model.pkl'' = Inr ''model.pkl''"
    by (simp add: demo_env_def)
  have h2: "joblib_load demo_env ''scaler.pkl'' = Inr ''scaler.pkl''"
    by (simp add: demo_env_def)
  have h3: "obj_transform demo_env ''scaler.pkl'' (input_df demo_request) = Inr [[0, 0, 0, 0, 0, 0]]"
    by (simp add: demo_env_def)
  have h4: "obj_predict demo_env ''model.pkl'' [[0, 0, 0, 0, 0, 0]] = Inr [- 5]"
    by (simp add: demo_env_def)
  from raw_prediction_unclamped [OF h1 h2 h3 h4] h1 h2 h3 h4 show ?thesis
    by simp
qed

text \<open>
  Claim C3. The frame assembled from a request has exactly one row, whose six columns are,
  in this order, distance_to_solar_noon, temperature, sky_cover, visibility, humidity and
  wind_speed, each holding the value of the widget of that name; when the button is pressed
  with the artifacts loaded, the first thing the prediction branch does is to pass this very
  frame to the scaler. Nothing checks the frame on the way: the two library calls run on any
  frame whatever, also one whose columns are in another order, and the first element of what
  the model returns is taken as the prediction.
\<close>

theorem input_df_column_order:
  assumes "model_loaded G"
    and "scaler_var G = Some s"
    and "model_var G = Some m"
    and "obj_transform E s df = Inr X"
    and "obj_predict E m X = Inr (y # ys)"
  shows "length (input_df q) = 1
    \<and> map (map fst) (input_df q) =
        [[''distance_to_solar_noon'', ''temperature'', ''sky_cover'',
          ''visibility'', ''humidity'', ''wind_speed'']]
    \<and> map (map snd) (input_df q) =
        [[FloatCell (distance_to_solar_noon q), FloatCell (temperature q),
          IntCell (sky_cover q), FloatCell (visibility q),
          IntCell (humidity q), FloatCell (wind_speed q)]]
    \<and> take 1 (fst (predict_section E G q True)) = [Call_transform s (input_df q)]
    \<and> run_model E G df = ([Call_transform s df, Call_predict m X], Inr y)"
proof -
  have shape: "length (input_df q) = 1"
    by (simp add: input_df_def)
  have names: "map (map fst) (input_df q) =
        [[''distance_to_solar_noon'', ''temperature'', ''sky_cover'',
          ''visibility'', ''humidity'', ''wind_speed'']]"
    by (simp add: input_df_def)
  have cells: "map (map snd) (input_df q) =
        [[FloatCell (distance_to_solar_noon q), FloatCell (temperature q),
          IntCell (sky_cover q), FloatCell (visibility q),
          IntCell (humidity q), FloatCell (wind_speed q)]]"
    by (simp add: input_df_def)
  have "\<exists>rest. fst (run_model E G (input_df q)) = Call_transform s (input_df q) # rest"
    using assms(2) by (simp add: run_model_def read_var_def bind_ret fst_bind_call)
  then obtain rest where "fst (run_model E G (input_df q)) = Call_transform s (input_df q) # rest"
    by blast
  then have handed: "take 1 (fst (predict_section E G q True)) = [Call_transform s (input_df q)]"
    using assms(1) by (simp add: predict_section_def fst_bind)
  have nocheck: "run_model E G df = ([Call_transform s df, Call_predict m X], Inr y)"
    using assms(2-5) by (simp add: run_model_def script_defs)
  from shape names cells handed nocheck show ?thesis
    by blast
qed

theorem input_df_column_order_witness:
  "model_loaded demo_globals
   \<and> scaler_var demo_globals = Some ''scaler.pkl''
   \<and> model_var demo_globals = Some ''model.pkl''
   \<and> obj_transform demo_env ''scaler.pkl'' swapped_df = Inr [[0, 0, 0, 0, 0, 0]]
   \<and> obj_predict demo_env ''model.pkl'' [[0, 0, 0, 0, 0, 0]] = Inr [- 5]
   \<and> map (map fst) (input_df demo_request) =
        [[''distance_to_solar_noon'', ''temperature'', ''sky_cover'',
          ''visibility'', ''humidity'', ''wind_speed'']]
   \<and> take 1 (fst (predict_section demo_env demo_globals demo_request True)) =
        [Call_transform ''scaler.pkl'' (input_df demo_request)]
   \<and> run_model demo_env demo_globals swapped_df =
        ([Call_transform ''scaler.pkl'' swapped_df, Call_predict ''model.pkl'' [[0, 0, 0, 0, 0, 0]]],
         Inr (- 5))"
proof -
  have h1: "model_loaded demo_globals"
    by (simp add: demo_globals_def)
  have h2: "scaler_var demo_globals = Some ''scaler.pkl''"
    by (simp add: demo_globals_def)
  have h3: "model_var demo_globals = Some ''model.pkl''"
    by (simp add: demo_globals_def)
  have h4: "obj_transform demo_env ''scaler.pkl'' swapped_df = Inr [[0, 0, 0, 0, 0, 0]]"
    by (simp add: demo_env_def)
  have h5: "obj_predict demo_env ''model.pkl'' [[0, 0, 0, 0, 0, 0]] = Inr [- 5]"
    by (simp add: demo_env_def)
  from input_df_column_order [OF h1 h2 h3 h4 h5, of demo_request] h1 h2 h3 h4 h5
  show ?thesis
    by blast
qed

text \<open>
  Claim C4. For every raw prediction, the values the result box hands to its formatters are
  the prediction itself, the prediction divided by 3,600,000 (kWh equivalent), the
  prediction divided by 1000 (kilojoules) and the kWh equivalent times 8 (kWh per day); no
  rounding to a number of decimals is applied to them, the number of decimals being part of
  the format specification only.
\<close>

theorem derived_values:
  "box_value (render_result q raw_joules) = Fmt '',.0f'' raw_joules
   \<and> box_kwh (render_result q raw_joules) = Fmt ''.4f'' (raw_joules / 3600000)
   \<and> box_kilojoules (render_result q raw_joules) = Fmt '',.1f'' (raw_joules / 1000)
   \<and> box_kwh_per_day (render_result q raw_joules) = Fmt ''.4f'' (raw_joules / 3600000 * 8)"
  by (simp add: render_result_def Let_def split: prod.splits)









text \<open>
  Claim C7, as amended. When both files load, \<open>load_artifacts\<close> loads model.pkl first and
  scaler.pkl second and returns the pair whose first component is the object read from
  model.pkl (the model) and whose second component is the object read from scaler.pkl (the
  scaler); the try statement binds \<open>model\<close> to the first and \<open>scaler\<close> to the second, and
  the prediction calls \<open>transform\<close> on the second.
\<close>

theorem load_artifacts_returns_model_then_scaler:
  assumes "joblib_load E ''model.pkl'' = Inr m"
    and "joblib_load E ''scaler.pkl'' = Inr s"
  shows "load_artifacts E =
        ([Call_joblib_load ''model.pkl'', Call_joblib_load ''scaler.pkl''], Inr (m, s))
    \<and> snd (load_section E) =
        Inr \<lparr>model_loaded = True, model_var = Some m, scaler_var = Some s\<rparr>
    \<and> take 1 (fst (run_model E
          \<lparr>model_loaded = True, model_var = Some m, scaler_var = Some s\<rparr> df)) =
        [Call_transform s df]"
proof -
  have pair: "load_artifacts E =
      ([Call_joblib_load ''model.pkl'', Call_joblib_load ''scaler.pkl''], Inr (m, s))"
    using assms by (simp add: load_artifacts_def script_defs)
  have bound: "snd (load_section E) =
      Inr \<lparr>model_loaded = True, model_var = Some m, scaler_var = Some s\<rparr>"
    by (simp add: load_section_def pair script_defs)
  have used: "take 1 (fst (run_model E
          \<lparr>model_loaded = True, model_var = Some m, scaler_var = Some s\<rparr> df)) =
        [Call_transform s df]"
    by (simp add: run_model_def read_var_def bind_ret fst_bind_call)
  from pair bound used show ?thesis by blast
qed

theorem load_artifacts_returns_model_then_scaler_witness:
  "joblib_load demo_env ''model.pkl'' = Inr ''model.pkl''
   \<and> joblib_load demo_env ''scaler.pkl'' = Inr ''scaler.pkl''
   \<and> load_artifacts demo_env =
       ([Call_joblib_load ''model.pkl'', Call_joblib_load ''scaler.pkl''],
        Inr (''model.pkl'', ''scaler.pkl''))
   \<and> snd (load_section demo_env) =
       Inr \<lparr>model_loaded = True, model_var = Some ''model.pkl'',
            scaler_var = Some ''scaler.pkl''\<rparr>"
proof -
  have h1: "joblib_load demo_env ''model.pkl'' = Inr ''model.pkl''"
    by (simp add: demo_env_def)
  have h2: "joblib_load demo_env ''scaler.pkl'' = Inr ''scaler.pkl''"
    by (simp add: demo_env_def)
  from load_artifacts_returns_model_then_scaler [OF h1 h2] h1 h2 show ?thesis
    by blast
qed

text \<open>
  Claim C7, as stated, fails: where each file unpickles to its own name, the first component
  of the returned pair is the object read from model.pkl, not the one read from scaler.pkl.
\<close>

theorem load_artifacts_scaler_first_counterexample:
  "map_sum id fst (snd (load_artifacts demo_env)) = Inr ''model.pkl''
   \<and> map_sum id fst (snd (load_artifacts demo_env)) \<noteq> joblib_load demo_env ''scaler.pkl''"
  by (simp add: load_artifacts_def script_defs demo_env_def)

text \<open>
  Claim C8, as amended. With both artifacts loaded and the button pressed, if
  \<open>transform\<close> raises, or \<open>transform\<close> returns and \<open>predict\<close> raises, then the script
  stops at the failing call with that very exception, uncaught: nothing is swallowed, and
  the script itself renders nothing further (no result box, no error message, no footer).
\<close>

theorem prediction_failure_propagates:
  assumes "joblib_load E ''model.pkl'' = Inr m"
    and "joblib_load E ''scaler.pkl'' = Inr s"
    and "obj_transform E s (input_df q) = Inl e
      \<or> (obj_transform E s (input_df q) = Inr X \<and> obj_predict E m X = Inl e)"
  shows "app E q True =
        ([Page_style, Call_joblib_load ''model.pkl'', Call_joblib_load ''scaler.pkl'',
          Hero, Input_form, Call_transform s (input_df q)] @
         (case obj_transform E s (input_df q) of
            Inl _ \<Rightarrow> []
          | Inr X' \<Rightarrow> [Call_predict m X']), Inl e)"
  using assms by (auto simp add: page_defs script_defs)

theorem prediction_failure_propagates_witness:
  "joblib_load predict_fails_env ''model.pkl'' = Inr ''model.pkl''
   \<and> joblib_load predict_fails_env ''scaler.pkl'' = Inr ''scaler.pkl''
   \<and> obj_transform predict_fails_env ''scaler.pkl'' (input_df demo_request) =
       Inr [[0, 0, 0, 0, 0, 0]]
   \<and> obj_predict predict_fails_env ''model.pkl'' [[0, 0, 0, 0, 0, 0]] =
       Inl (PyExc True ''ValueError'' ''feature shape mismatch'')
   \<and> app predict_fails_env demo_request True =
       ([Page_style, Call_joblib_load ''model.pkl'', Call_joblib_load ''scaler.pkl'',
         Hero, Input_form, Call_transform ''scaler.pkl'' (input_df demo_request),
         Call_predict ''model.pkl'' [[0, 0, 0, 0, 0, 0]]],
        Inl (PyExc True ''ValueError'' ''feature shape mismatch''))"
proof -
  have h1: "joblib_load predict_fails_env ''model.pkl'' = Inr ''model.pkl''"
    by (simp add: predict_fails_env_def)
  have h2: "joblib_load predict_fails_env ''scaler.pkl'' = Inr ''scaler.pkl''"
    by (simp add: predict_fails_env_def)
  have h3: "obj_transform predict_fails_env ''scaler.pkl'' (input_df demo_request) =
      Inr [[0, 0, 0, 0, 0, 0]]"
    by (simp add: predict_fails_env_def)
  have h4: "obj_predict predict_fails_env ''model.pkl'' [[0, 0, 0, 0, 0, 0]] =
      Inl (PyExc True ''ValueError'' ''feature shape mismatch'')"
    by (simp add: predict_fails_env_def)
  from h3 h4 have h34:
    "obj_transform predict_fails_env ''scaler.pkl'' (input_df demo_request) =
        Inl (PyExc True ''ValueError'' ''feature shape mismatch'')
     \<or> (obj_transform predict_fails_env ''scaler.pkl'' (input_df demo_request) =
          Inr [[0, 0, 0, 0, 0, 0]]
        \<and> obj_predict predict_fails_env ''model.pkl'' [[0, 0, 0, 0, 0, 0]] =
          Inl (PyExc True ''ValueError'' ''feature shape mismatch''))"
    by blast
  from prediction_failure_propagates [OF h1 h2 h34] h1 h2 h3 h4 show ?thesis
    by simp
qed

text \<open>
  Claim C8, as stated, fails: where the scaler raises a ValueError, the run ends with that
  ValueError leaving the script; no error message (no \<open>St_error\<close>) has been rendered.
\<close>

theorem prediction_unavailable_counterexample:
  "app transform_fails_env demo_request True =
     ([Page_style, Call_joblib_load ''model.pkl'', Call_joblib_load ''scaler.pkl'',
       Hero, Input_form, Call_transform ''scaler.pkl'' (input_df demo_request)],
      Inl (PyExc True ''ValueError'' ''feature names do not match''))"
  by (simp add: page_defs script_defs transform_fails_env_def)

text \<open>
  Claim C9. Two runs of the script whose six request fields are equal, that load the same
  model and the same scaler, and in which the scaler's \<open>transform\<close> and the model's
  \<open>predict\<close> are the same functions, perform the same calls and render the same page:
  the same raw prediction, the same derived values and the same condition label (or fail
  with the same exception). Whatever else differs between the two environments has no
  influence.
\<close>

theorem prediction_deterministic:
  assumes "joblib_load E1 ''model.pkl'' = Inr m" and "joblib_load E2 ''model.pkl'' = Inr m"
    and "joblib_load E1 ''scaler.pkl'' = Inr s" and "joblib_load E2 ''scaler.pkl'' = Inr s"
    and "obj_transform E1 s = obj_transform E2 s"
    and "obj_predict E1 m = obj_predict E2 m"
    and "distance_to_solar_noon q1 = distance_to_solar_noon q2"
    and "temperature q1 = temperature q2"
    and "sky_cover q1 = sky_cover q2"
    and "visibility q1 = visibility q2"
    and "humidity q1 = humidity q2"
    and "wind_speed q1 = wind_speed q2"
  shows "app E1 q1 clicked = app E2 q2 clicked"
proof -
  have same_request: "q1 = q2"
    using assms(7-12) by simp
  have loaded1: "load_section E1 =
      ([Call_joblib_load ''model.pkl'', Call_joblib_load ''scaler.pkl''],
       Inr \<lparr>model_loaded = True, model_var = Some m, scaler_var = Some s\<rparr>)"
    using assms(1,3) by (simp add: load_section_def load_artifacts_def script_defs)
  have loaded2: "load_section E2 =
      ([Call_joblib_load ''model.pkl'', Call_joblib_load ''scaler.pkl''],
       Inr \<lparr>model_loaded = True, model_var = Some m, scaler_var = Some s\<rparr>)"
    using assms(2,4) by (simp add: load_section_def load_artifacts_def script_defs)
  have same_model: "run_model E1 G df = run_model E2 G df"
    if "model_var G = Some m" and "scaler_var G = Some s" for G df
    using that assms(5,6) by (simp add: run_model_def read_var_def bind_ret)
  have same_section: "predict_section E1 G q2 clicked = predict_section E2 G q2 clicked"
    if "model_var G = Some m" and "scaler_var G = Some s" for G
    using same_model [OF that] by (simp add: predict_section_def)
  show ?thesis
    unfolding same_request app_def loaded1 loaded2
    by (simp add: bind_def emit_def same_section)
qed

theorem prediction_deterministic_witness:
  "joblib_load demo_env ''model.pkl'' = Inr ''model.pkl''
   \<and> joblib_load other_env ''model.pkl'' = Inr ''model.pkl''
   \<and> joblib_load demo_env ''scaler.pkl'' = Inr ''scaler.pkl''
   \<and> joblib_load other_env ''scaler.pkl'' = Inr ''scaler.pkl''
   \<and> obj_transform demo_env ''scaler.pkl'' = obj_transform other_env ''scaler.pkl''
   \<and> obj_predict demo_env ''model.pkl'' = obj_predict other_env ''model.pkl''
   \<and> joblib_load demo_env ''notes.txt'' \<noteq> joblib_load other_env ''notes.txt''
   \<and> app demo_env demo_request True = app other_env demo_request True"
proof -
  have h1: "joblib_load demo_env ''model.pkl'' = Inr ''model.pkl''"
    by (simp add: demo_env_def)
  have h2: "joblib_load other_env ''model.pkl'' = Inr ''model.pkl''"
    by (simp add: other_env_def)
  have h3: "joblib_load demo_env ''scaler.pkl'' = Inr ''scaler.pkl''"
    by (simp add: demo_env_def)
  have h4: "joblib_load other_env ''scaler.pkl'' = Inr ''scaler.pkl''"
    by (simp add: other_env_def)
  have h5: "obj_transform demo_env ''scaler.pkl'' = obj_transform other_env ''scaler.pkl''"
    by (simp add: demo_env_def other_env_def)
  have h6: "obj_predict demo_env ''model.pkl'' = obj_predict other_env ''model.pkl''"
    by (simp add: demo_env_def other_env_def)
  have differ: "joblib_load demo_env ''notes.txt'' \<noteq> joblib_load other_env ''notes.txt''"
    by (simp add: demo_env_def other_env_def)
  from prediction_deterministic [OF h1 h2 h3 h4 h5 h6 refl refl refl refl refl refl,
      of demo_request True] h1 h2 h3 h4 h5 h6 differ
  show ?thesis
    by blast
qed

text \<open>
  Claim C10, as amended. Every exception of a class under \<open>Exception\<close> raised inside
  \<open>load_artifacts\<close>, whatever its type and message, is caught by the guard: the load
  section ends normally with \<open>model_loaded\<close> False after rendering the load error message,
  and the script runs to its end without an exception, whether or not the button is pressed.
\<close>

theorem load_guard_catches_Exception:
  assumes "snd (load_artifacts E) = Inl e"
    and "under_Exception e"
  shows "load_section E =
        (fst (load_artifacts E) @ [St_error (load_error_message e)],
         Inr \<lparr>model_loaded = False, model_var = None, scaler_var = None\<rparr>)
    \<and> snd (app E q clicked) = Inr ()"
proof -
  obtain l where la: "load_artifacts E = (l, Inl e)"
    using assms(1) by (cases "load_artifacts E") simp
  have sect: "load_section E =
      (l @ [St_error (load_error_message e)],
       Inr \<lparr>model_loaded = False, model_var = None, scaler_var = None\<rparr>)"
    using assms(2) by (simp add: load_section_def la script_defs)
  have ends: "snd (app E q clicked) = Inr ()"
    by (simp add: app_def sect predict_section_def script_defs)
  from sect ends la show ?thesis by simp
qed

theorem load_guard_catches_Exception_witness:
  "snd (load_artifacts scaler_missing_env) =
       Inl (PyExc True ''FileNotFoundError'' ''[Errno 2] No such file or directory: scaler.pkl'')
   \<and> under_Exception
       (PyExc True ''FileNotFoundError'' ''[Errno 2] No such file or directory: scaler.pkl'')
   \<and> load_section scaler_missing_env =
       ([Call_joblib_load ''model.pkl'', Call_joblib_load ''scaler.pkl'',
         St_error (load_error_message
           (PyExc True ''FileNotFoundError'' ''[Errno 2] No such file or directory: scaler.pkl''))],
        Inr \<lparr>model_loaded = False, model_var = None, scaler_var = None\<rparr>)
   \<and> snd (app scaler_missing_env demo_request True) = Inr ()"
proof -
  let ?e = "PyExc True ''FileNotFoundError'' ''[Errno 2] No such file or directory: scaler.pkl''"
  have la: "load_artifacts scaler_missing_env =
      ([Call_joblib_load ''model.pkl'', Call_joblib_load ''scaler.pkl''], Inl ?e)"
    by (simp add: load_artifacts_def script_defs scaler_missing_env_def)
  then have h1: "snd (load_artifacts scaler_missing_env) = Inl ?e"
    by simp
  have h2: "under_Exception ?e"
    by simp
  from load_guard_catches_Exception [OF h1 h2, of demo_request True] la h1 h2
  show ?thesis
    by simp
qed

text \<open>
  Claim C10, as stated, fails: a KeyboardInterrupt raised while model.pkl is unpickled is not
  of a class under \<open>Exception\<close>; it passes the guard and ends the script right there.
\<close>

theorem load_guard_counterexample:
  "app interrupted_env demo_request False =
     ([Page_style, Call_joblib_load ''model.pkl''], Inl (PyExc False ''KeyboardInterrupt'' []))"
  by (simp add: page_defs script_defs interrupted_env_def)


subsection \<open>The unit conversions in binary floating point\<close>

lemma round_half_even_near: "\<bar>of_int (round_half_even y) - y\<bar> \<le> 1 / 2"
  unfolding round_half_even_def Let_def by (auto; linarith)

lemma round_half_even_eval:
  assumes "of_int n - 1 / 2 < y" and "y < of_int n + 1 / 2"
  shows "round_half_even y = n"
proof -
  have "\<lfloor>y\<rfloor> = n \<or> \<lfloor>y\<rfloor> = n - 1"
    using assms by linarith
  then show ?thesis
    using assms unfolding round_half_even_def Let_def by (auto; linarith)
qed

lemma ulp_pos: "0 < ulp p x"
  by (simp add: ulp_def)

lemma ulp_le:
  assumes "x \<noteq> 0"
  shows "ulp p x \<le> 2 * \<bar>x\<bar> / 2 ^ p"
proof -
  have pos: "0 < \<bar>x\<bar>"
    using assms by simp
  have "2 powr of_int \<lfloor>log 2 \<bar>x\<bar>\<rfloor> \<le> 2 powr log 2 \<bar>x\<bar>"
    by simp
  also have "\<dots> = \<bar>x\<bar>"
    using pos by simp
  finally have le: "2 powr of_int \<lfloor>log 2 \<bar>x\<bar>\<rfloor> \<le> \<bar>x\<bar>" .
  have "ulp p x = 2 powr of_int \<lfloor>log 2 \<bar>x\<bar>\<rfloor> * 2 / 2 ^ p"
    by (simp add: ulp_def powr_add powr_diff powr_realpow flip: powr_realpow)
  then show ?thesis
    using le by (simp add: divide_right_mono)
qed

text \<open>Rounding moves a number by at most half a unit in the last place.\<close>

lemma fl_error: "\<bar>fl p x - x\<bar> \<le> \<bar>x\<bar> / 2 ^ p"
proof (cases "x = 0")
  case True
  then show ?thesis by (simp add: fl_def)
next
  case False
  let ?u = "ulp p x"
  have u: "0 < ?u" by (rule ulp_pos)
  have "fl p x - x = (of_int (round_half_even (x / ?u)) - x / ?u) * ?u"
    using False u by (simp add: fl_def field_simps)
  then have "\<bar>fl p x - x\<bar> = \<bar>of_int (round_half_even (x / ?u)) - x / ?u\<bar> * ?u"
    using u by (simp add: abs_mult)
  also have "\<dots> \<le> 1 / 2 * ?u"
    using round_half_even_near [of "x / ?u"] u by (intro mult_right_mono) simp_all
  also have "\<dots> \<le> 1 / 2 * (2 * \<bar>x\<bar> / 2 ^ p)"
    using ulp_le [OF False, of p] by (simp add: mult.commute)
  finally show ?thesis by simp
qed

lemma ulp_eval:
  assumes "2 powr of_int e \<le> \<bar>x\<bar>" and "\<bar>x\<bar> < 2 powr of_int (e + 1)"
  shows "ulp p x = 2 powr of_int (e - int p + 1)"
proof -
  have "0 < \<bar>x\<bar>"
    using assms(1) by (smt (verit) powr_gt_zero)
  then have "\<lfloor>log 2 \<bar>x\<bar>\<rfloor> = e"
    using assms by (simp add: floor_log_eq_powr_iff)
  then show ?thesis by (simp add: ulp_def)
qed

text \<open>How \<open>fl\<close> is evaluated: bracket the number by powers of two, then the significand.\<close>

lemma fl_eval:
  assumes "2 powr of_int e \<le> \<bar>x\<bar>" and "\<bar>x\<bar> < 2 powr of_int (e + 1)"
    and "of_int n - 1 / 2 < x / 2 powr of_int (e - int p + 1)"
    and "x / 2 powr of_int (e - int p + 1) < of_int n + 1 / 2"
  shows "fl p x = of_int n * 2 powr of_int (e - int p + 1)"
proof -
  have "x \<noteq> 0"
    using assms(1) by (smt (verit) powr_gt_zero)
  then show ?thesis
    using round_half_even_eval [OF assms(3,4)]
    by (simp add: fl_def ulp_eval [OF assms(1,2)])
qed

text \<open>Dividing by a constant and multiplying by it again: two roundings.\<close>

lemma round_trip_error:
  assumes "c \<noteq> 0"
  shows "\<bar>fmul p (fdiv p x c) c - x\<bar> \<le> (2 / 2 ^ p + 1 / 4 ^ p) * \<bar>x\<bar>"
proof -
  let ?u = "1 / 2 ^ p :: real"
  let ?y = "fl p (x / c)"
  have u0: "0 \<le> ?u" by simp
  have e1: "\<bar>?y - x / c\<bar> \<le> ?u * \<bar>x / c\<bar>"
    using fl_error [of p "x / c"] by (simp add: mult.commute)
  have e2: "\<bar>fl p (?y * c) - ?y * c\<bar> \<le> ?u * \<bar>?y * c\<bar>"
    using fl_error [of p "?y * c"] by simp
  have "?y * c - x = (?y - x / c) * c"
    using assms by (simp add: field_simps)
  then have "\<bar>?y * c - x\<bar> = \<bar>?y - x / c\<bar> * \<bar>c\<bar>"
    by (simp add: abs_mult)
  also have "\<dots> \<le> ?u * \<bar>x / c\<bar> * \<bar>c\<bar>"
    using e1 by (intro mult_right_mono) simp_all
  also have "\<dots> = ?u * \<bar>x\<bar>"
    using assms by (simp add: abs_divide)
  finally have d1: "\<bar>?y * c - x\<bar> \<le> ?u * \<bar>x\<bar>" .
  have "\<bar>?y * c\<bar> \<le> \<bar>x\<bar> + \<bar>?y * c - x\<bar>"
    by linarith
  then have b: "\<bar>?y * c\<bar> \<le> \<bar>x\<bar> + ?u * \<bar>x\<bar>"
    using d1 by linarith
  have "?u * \<bar>?y * c\<bar> \<le> ?u * (\<bar>x\<bar> + ?u * \<bar>x\<bar>)"
    using b u0 by (intro mult_left_mono)
  then have d2: "\<bar>fl p (?y * c) - ?y * c\<bar> \<le> ?u * (\<bar>x\<bar> + ?u * \<bar>x\<bar>)"
    using e2 by linarith
  have "\<bar>fl p (?y * c) - x\<bar> \<le> \<bar>fl p (?y * c) - ?y * c\<bar> + \<bar>?y * c - x\<bar>"
    by linarith
  then have "\<bar>fl p (?y * c) - x\<bar> \<le> ?u * (\<bar>x\<bar> + ?u * \<bar>x\<bar>) + ?u * \<bar>x\<bar>"
    using d1 d2 by linarith
  also have "\<dots> = (2 / 2 ^ p + 1 / 4 ^ p) * \<bar>x\<bar>"
    by (simp add: algebra_simps power_mult_distrib [symmetric] flip: power_mult_distrib)
  finally show ?thesis
    by (simp add: fmul_def fdiv_def)
qed

text \<open>
  Claim C5, as amended. For every raw prediction and every number \<open>p\<close> of significant
  bits, both round trips return to the raw value within floating-point tolerance:
  kilojoules times 1000, and the kWh equivalent times 3,600,000, each differ from the raw
  prediction by at most \<open>(2 / 2^p + 1 / 4^p)\<close> times its magnitude. Neither is promised to
  be exact.
\<close>

theorem round_trips_within_tolerance:
  "\<bar>fmul p (float_kilojoules p raw_joules) 1000 - raw_joules\<bar>
      \<le> (2 / 2 ^ p + 1 / 4 ^ p) * \<bar>raw_joules\<bar>
   \<and> \<bar>fmul p (float_kwh p raw_joules) 3600000 - raw_joules\<bar>
      \<le> (2 / 2 ^ p + 1 / 4 ^ p) * \<bar>raw_joules\<bar>"
proof -
  have kj: "\<bar>fmul p (fdiv p raw_joules 1000) 1000 - raw_joules\<bar>
      \<le> (2 / 2 ^ p + 1 / 4 ^ p) * \<bar>raw_joules\<bar>"
    by (rule round_trip_error) simp
  have kwh: "\<bar>fmul p (fdiv p raw_joules 3600000) 3600000 - raw_joules\<bar>
      \<le> (2 / 2 ^ p + 1 / 4 ^ p) * \<bar>raw_joules\<bar>"
    by (rule round_trip_error) simp
  from kj kwh show ?thesis
    unfolding float_kilojoules_def float_kwh_def by blast
qed

text \<open>In float64, 1001 J: the quotient and the product, each rounded to 53 bits.\<close>

lemma float64_1001_div: "fdiv 53 1001 1000 = 4508103226997866 / 2 ^ 52"
proof -
  have "fl 53 (1001 / 1000) = of_int 4508103226997866 * 2 powr of_int (0 - int 53 + 1)"
    by (rule fl_eval) (simp_all add: powr_minus divide_simps)
  then show ?thesis
    by (simp add: fdiv_def powr_minus divide_simps)
qed

lemma float64_1001_mul: "fmul 53 (4508103226997866 / 2 ^ 52) 1000 = 8804889115230207 / 2 ^ 43"
proof -
  have "fl 53 (4508103226997866 / 2 ^ 52 * 1000) =
      of_int 8804889115230207 * 2 powr of_int (9 - int 53 + 1)"
    by (rule fl_eval) (simp_all add: powr_minus divide_simps)
  then show ?thesis
    by (simp add: fmul_def powr_minus divide_simps)
qed

lemma float64_1001_representable: "fl 53 1001 = 1001"
proof -
  have "fl 53 1001 = of_int 8804889115230208 * 2 powr of_int (9 - int 53 + 1)"
    by (rule fl_eval) (simp_all add: powr_minus divide_simps)
  then show ?thesis
    by (simp add: powr_minus divide_simps)
qed

text \<open>In float32, 127 J: the quotient and the product, each rounded to 24 bits.\<close>

lemma float32_127_div: "fdiv 24 127 1000 = 8522826 / 2 ^ 26"
proof -
  have "fl 24 (127 / 1000) = of_int 8522826 * 2 powr of_int (- 3 - int 24 + 1)"
    by (rule fl_eval) (simp_all add: powr_minus divide_simps)
  then show ?thesis
    by (simp add: fdiv_def powr_minus divide_simps)
qed

lemma float32_127_mul: "fmul 24 (8522826 / 2 ^ 26) 1000 = 16646145 / 2 ^ 17"
proof -
  have "fl 24 (8522826 / 2 ^ 26 * 1000) = of_int 16646145 * 2 powr of_int (6 - int 24 + 1)"
    by (rule fl_eval) (simp_all add: powr_minus divide_simps)
  then show ?thesis
    by (simp add: fmul_def powr_minus divide_simps)
qed

lemma float32_127_representable: "fl 24 127 = 127"
proof -
  have "fl 24 127 = of_int 16646144 * 2 powr of_int (6 - int 24 + 1)"
    by (rule fl_eval) (simp_all add: powr_minus divide_simps)
  then show ?thesis
    by (simp add: powr_minus divide_simps)
qed

text \<open>
  Claim C5, as stated, fails: the round trip through kilojoules is not exact. A raw
  prediction of 1001 J is a float64 number, and dividing it by 1000 and multiplying by 1000
  in float64 gives \<open>1001 - 2^-43\<close>; a raw prediction of 127 J is a float32 number, and the
  same round trip in float32 gives \<open>127 + 2^-17\<close>.
\<close>

theorem kilojoules_round_trip_counterexample:
  "fl 53 1001 = 1001
   \<and> fmul 53 (float_kilojoules 53 1001) 1000 = 1001 - 1 / 2 ^ 43
   \<and> fmul 53 (float_kilojoules 53 1001) 1000 \<noteq> 1001
   \<and> fl 24 127 = 127
   \<and> fmul 24 (float_kilojoules 24 127) 1000 = 127 + 1 / 2 ^ 17
   \<and> fmul 24 (float_kilojoules 24 127) 1000 \<noteq> 127"
proof -
  have a: "fmul 53 (float_kilojoules 53 1001) 1000 = 8804889115230207 / 2 ^ 43"
    unfolding float_kilojoules_def float64_1001_div float64_1001_mul by (rule refl)
  have b: "fmul 24 (float_kilojoules 24 127) 1000 = 16646145 / 2 ^ 17"
    unfolding float_kilojoules_def float32_127_div float32_127_mul by (rule refl)
  show ?thesis
    unfolding a b using float64_1001_representable float32_127_representable by simp
qed

end
